theory Spec2Isabelle
  imports Complex_Main "HOL-Library.Sublist" "HOL-Library.Char_ord" "HOL-Library.List_Lexorder"
begin

section \<open>Python strings\<close>

text \<open>
  A Python \<open>str\<close> is modelled as the \<open>string\<close> of its UTF-8 bytes. \<open>str_in\<close> is the
  substring test \<open>needle in hay\<close>. \<open>strip\<close> is \<open>str.strip()\<close>: it removes, at both ends,
  every character for which \<open>str.isspace()\<close> holds; \<open>whitespace\<close> lists the UTF-8
  encodings of these 29 characters (U+0009..U+000D, U+001C..U+0020, U+0085, U+00A0,
  U+1680, U+2000..U+200A, U+2028, U+2029, U+202F, U+205F, U+3000).

  \<open>str.lower()\<close> follows the Unicode case tables, which are no part of the repository:
  every function that calls it takes it as its first parameter \<open>lower\<close>, and the
  theorems hold for every such function.
\<close>

definition whitespace :: "string list" where
  "whitespace =
     [[CHR 0x09], [CHR 0x0A], [CHR 0x0B], [CHR 0x0C], [CHR 0x0D],
      [CHR 0x1C], [CHR 0x1D], [CHR 0x1E], [CHR 0x1F], [CHR 0x20],
      [CHR 0xC2, CHR 0x85], [CHR 0xC2, CHR 0xA0],
      [CHR 0xE1, CHR 0x9A, CHR 0x80],
      [CHR 0xE2, CHR 0x80, CHR 0x80], [CHR 0xE2, CHR 0x80, CHR 0x81],
      [CHR 0xE2, CHR 0x80, CHR 0x82], [CHR 0xE2, CHR 0x80, CHR 0x83],
      [CHR 0xE2, CHR 0x80, CHR 0x84], [CHR 0xE2, CHR 0x80, CHR 0x85],
      [CHR 0xE2, CHR 0x80, CHR 0x86], [CHR 0xE2, CHR 0x80, CHR 0x87],
      [CHR 0xE2, CHR 0x80, CHR 0x88], [CHR 0xE2, CHR 0x80, CHR 0x89],
      [CHR 0xE2, CHR 0x80, CHR 0x8A],
      [CHR 0xE2, CHR 0x80, CHR 0xA8], [CHR 0xE2, CHR 0x80, CHR 0xA9],
      [CHR 0xE2, CHR 0x80, CHR 0xAF], [CHR 0xE2, CHR 0x81, CHR 0x9F],
      [CHR 0xE3, CHR 0x80, CHR 0x80]]"

text \<open>Removing, as long as there is one, an encoding of \<open>ws\<close> that the string starts with.\<close>

function drop_leading :: "string list \<Rightarrow> string \<Rightarrow> string" where
  "drop_leading ws s =
     (case find (\<lambda>w. w \<noteq> [] \<and> prefix w s) ws of
        None \<Rightarrow> s
      | Some w \<Rightarrow> drop_leading ws (drop (length w) s))"
  by pat_completeness auto
termination
proof (relation "measure (\<lambda>(ws, s). length s)")
  show "wf (measure (\<lambda>(ws, s). length s))"
    by simp
next
  fix ws :: "string list" and s w :: string
  assume "find (\<lambda>w. w \<noteq> [] \<and> prefix w s) ws = Some w"
  then have "w \<noteq> [] \<and> prefix w s"
    by (auto simp: find_Some_iff)
  then have "length w \<le> length s" and "w \<noteq> []"
    by (simp_all add: prefix_length_le)
  then show "((ws, drop (length w) s), (ws, s)) \<in> measure (\<lambda>(ws, s). length s)"
    by (cases w) simp_all
qed

declare drop_leading.simps [simp del]

definition lstrip :: "string \<Rightarrow> string" where
  "lstrip s = drop_leading whitespace s"

definition rstrip :: "string \<Rightarrow> string" where
  "rstrip s = rev (drop_leading (map rev whitespace) (rev s))"

definition strip :: "string \<Rightarrow> string" where
  "strip s = lstrip (rstrip s)"

fun str_in :: "string \<Rightarrow> string \<Rightarrow> bool" where
  "str_in needle [] = (needle = [])"
| "str_in needle (c # cs) = (prefix needle (c # cs) \<or> str_in needle cs)"

definition digit_char :: "nat \<Rightarrow> char" where
  "digit_char d = char_of (48 + d)"

fun str_nat :: "nat \<Rightarrow> string" where
  "str_nat n = (if n < 10 then [digit_char n] else str_nat (n div 10) @ [digit_char (n mod 10)])"

definition str_int :: "int \<Rightarrow> string" where
  "str_int i = (if i < 0 then CHR ''-'' # str_nat (nat (- i)) else str_nat (nat i))"

section \<open>chatbot_service.py: the AI assistant\<close>

text \<open>
  The external completion service is a black box. Each method of \<open>TravelChatbot\<close> wraps
  one call of \<open>client.chat.completions.create\<close> and the decoding of its answer in a
  \<open>try\<close> block; the provider is modelled as one function per method, from the data the
  prompt is rendered from to either the exception raised inside that \<open>try\<close> block
  (\<open>Inl\<close>: transport failure, malformed answer, JSON decoding error) or the decoded answer.
\<close>

text \<open>
  The chat prompt prints the destinations' names and four columns of each package, so
  \<open>chat\<close> takes the destinations as their names and the packages as \<open>pkg_ctx\<close> rows.
\<close>

type_synonym provider_error = string

record pkg_ctx =
  ctx_name :: "string option"
  ctx_price :: "rat option"
  ctx_destination :: string
  ctx_duration :: "int option"

record chat_request =
  req_model :: string
  req_destinations :: "string list"
  req_packages :: "pkg_ctx list"
  req_history :: "(string \<times> string) list"
  req_user :: string

text \<open>A row of \<open>available_packages\<close>; \<open>TO_CHAR\<close> of a NULL description is \<open>None\<close>.\<close>

record rec_pkg =
  rp_package_id :: int
  rp_package_name :: string
  rp_destination_name :: string
  rp_price :: "rat option"
  rp_duration_days :: "int option"
  rp_description :: "string option"

record recommendation =
  rec_package_id :: int
  rec_match_score :: int
  rec_reasoning :: string

record preferences =
  min_budget :: "rat option"
  max_budget :: "rat option"
  interests :: "string list"
  month :: string
  duration :: string
  travelers :: int


text \<open>The tool-call arguments as decoded from JSON: every key may be absent.\<close>

record intent_arguments =
  arg_destination_type :: "string option"
  arg_destination_name :: "string option"
  arg_duration_days :: "int option"
  arg_adults :: "int option"
  arg_children :: "int option"
  arg_infants :: "int option"
  arg_max_budget :: "rat option"
  arg_preferred_month :: "string option"
  arg_interests :: "string list option"

record review_request =
  rr_package_name :: string
  rr_total :: nat
  rr_average :: rat
  rr_chart :: "nat list"

record review =
  rating :: "int option"

record review_summary =
  summary :: string
  sentiment :: string
  key_points :: "string list"
  pros :: "string list option"
  cons :: "string list option"
  total_reviews :: "nat option"
  avg_rating :: "rat option"

record provider =
  chat_completion :: "chat_request \<Rightarrow> provider_error + string list"
  recommend_completion ::
    "preferences \<times> rec_pkg list \<Rightarrow> provider_error + recommendation list option"
  intent_completion :: "string \<Rightarrow> provider_error + intent_arguments option"
  review_completion :: "review_request \<Rightarrow> provider_error + review_summary"

record chatbot =
  client :: "provider option"
  model :: string
  initialized :: bool

definition TravelChatbot :: "provider option \<Rightarrow> chatbot" where
  "TravelChatbot c = \<lparr>client = c, model = ''llama-3.3-70b-versatile'', initialized = (c \<noteq> None)\<rparr>"

record reply =
  success :: bool
  message :: string










definition default_replies :: "string list" where
  "default_replies =
     [CHR 0xF0 # CHR 0x9F # CHR 0x8F # CHR 0x96 # CHR 0xEF # CHR 0xB8 # CHR 0x8F # '' Beach destinations'',
      CHR 0xF0 # CHR 0x9F # CHR 0x8F # CHR 0x94 # CHR 0xEF # CHR 0xB8 # CHR 0x8F # '' Adventure trips'',
      CHR 0xF0 # CHR 0x9F # CHR 0x92 # CHR 0xB0 # '' Budget-friendly options'',
      CHR 0xE2 # CHR 0x9C # CHR 0x88 # CHR 0xEF # CHR 0xB8 # CHR 0x8F # '' How to book?'',
      CHR 0xF0 # CHR 0x9F # CHR 0x93 # CHR 0xA6 # '' Popular packages'']"

definition get_quick_replies ::
  "(string \<Rightarrow> string) \<Rightarrow> chatbot \<Rightarrow> string option \<Rightarrow> string list" where
  "get_quick_replies lower self context =
     (case context of
        None \<Rightarrow> default_replies
      | Some c \<Rightarrow>
          if c = [] then default_replies
          else
            (let context_lower = lower c in
             if str_in ''paris'' context_lower \<or> str_in ''europe'' context_lower then
               [''Paris packages'', ''Best time to visit'', ''London trips'',
                ''Barcelona tours'', ''How to book?'']
             else if str_in ''tokyo'' context_lower \<or> str_in ''japan'' context_lower
                     \<or> str_in ''asia'' context_lower then
               [''Tokyo packages'', ''Bali beaches'', ''Dubai luxury'',
                ''Best time to visit'', ''How to book?'']
             else if str_in ''beach'' context_lower \<or> str_in ''tropical'' context_lower then
               [''Bali packages'', ''Maldives trips'', ''Hawaii tours'',
                ''Miami beaches'', ''Budget options'']
             else default_replies))"

datatype py_exception = TypeError | KeyError | ValueError


definition get_or :: "'a option \<Rightarrow> 'a \<Rightarrow> 'a" where
  "get_or v d = (case v of None \<Rightarrow> d | Some x \<Rightarrow> x)"


text \<open>
  \<open>summarize_reviews\<close>. The mean is the exact quotient; Python holds it in a double, and
  the two functions of \<open>float_ops\<close> stand for \<open>f"{avg_rating:.1f}"\<close> and
  \<open>round(avg_rating, 1)\<close> on that double.
\<close>

record float_ops =
  fmt_1f :: "rat \<Rightarrow> string"
  round_1 :: "rat \<Rightarrow> rat"

definition no_reviews_summary :: review_summary where
  "no_reviews_summary =
     \<lparr>summary = ''No reviews yet. Be the first to share your experience!'',
      sentiment = ''neutral'', key_points = [], pros = None, cons = None,
      total_reviews = None, avg_rating = None\<rparr>"

definition str_rating :: "int option \<Rightarrow> string" where
  "str_rating r = (case r of None \<Rightarrow> ''None'' | Some i \<Rightarrow> str_int i)"

definition initial_summary :: "review list \<Rightarrow> review_summary" where
  "initial_summary reviews =
     \<lparr>summary = ''Based on '' @ str_nat (length reviews) @
                 '' initial rating(s). Not enough data for AI deep-dive.'',
      sentiment = ''neutral'',
      key_points = map (\<lambda>r. ''Recent Customer Rating: '' @ str_rating (rating r) @ ''/5'') reviews,
      pros = Some [''Growing interest''], cons = Some [],
      total_reviews = None, avg_rating = None\<rparr>"

text \<open>
  \<open>float(r['rating'])\<close> raises \<open>TypeError\<close> on \<open>None\<close>, and \<open>ratings_chart[int(...)] += 1\<close>
  raises \<open>KeyError\<close> outside 1..5; both stand before the \<open>try\<close> block.
\<close>

fun rating_values :: "review list \<Rightarrow> py_exception + int list" where
  "rating_values [] = Inr []"
| "rating_values (r # rs) =
     (case rating r of
        None \<Rightarrow> Inl TypeError
      | Some i \<Rightarrow> (case rating_values rs of Inl e \<Rightarrow> Inl e | Inr vals \<Rightarrow> Inr (i # vals)))"

definition ratings_chart :: "int list \<Rightarrow> py_exception + nat list" where
  "ratings_chart vals =
     (if list_ex (\<lambda>i. i < 1 \<or> 5 < i) vals then Inl KeyError
      else Inr (map (\<lambda>k. length (filter (\<lambda>i. i = k) vals)) [1, 2, 3, 4, 5]))"

definition summarize_reviews ::
  "float_ops \<Rightarrow> chatbot \<Rightarrow> review list \<Rightarrow> string \<Rightarrow> py_exception + review_summary" where
  "summarize_reviews fl self reviews package_name =
     (case client self of
        None \<Rightarrow> Inr no_reviews_summary
      | Some p \<Rightarrow>
          if \<not> initialized self then Inr no_reviews_summary
          else if reviews = [] then Inr no_reviews_summary
          else if length reviews \<le> 2 then Inr (initial_summary reviews)
          else
            (case rating_values reviews of
               Inl e \<Rightarrow> Inl e
             | Inr vals \<Rightarrow>
                 (let avg = of_int (sum_list vals) / of_nat (length reviews) in
                  case ratings_chart vals of
                    Inl e \<Rightarrow> Inl e
                  | Inr chart \<Rightarrow>
                      (case review_completion p
                              \<lparr>rr_package_name = package_name, rr_total = length reviews,
                                rr_average = avg, rr_chart = chart\<rparr> of
                         Inl e \<Rightarrow>
                           Inr \<lparr>summary = ''Based on '' @ str_nat (length reviews) @
                                   '' reviews (avg '' @ fmt_1f fl avg @
                                   ''/5). Check individual reviews for details.'',
                                 sentiment = ''mixed'', key_points = [],
                                 pros = None, cons = None,
                                 total_reviews = Some (length reviews),
                                 avg_rating = Some (round_1 fl avg)\<rparr>
                       | Inr summary_data \<Rightarrow>
                           Inr (summary_data\<lparr>total_reviews := Some (length reviews),
                                             avg_rating := Some (round_1 fl avg)\<rparr>)))))"

section \<open>app.py: the database\<close>

text \<open>
  Every handler runs a few parameterised SQL statements. A table is the list of its rows
  in insertion order, with the columns the handlers read or write; generated keys come
  from counters kept beside the tables. The schema (constraints, triggers, defaults) is
  not part of the source: the model executes exactly the statements the handlers issue.
\<close>

type_synonym timestamp = nat

record user_row =
  u_user_id :: nat
  u_username :: string
  u_email :: string
  u_password_hash :: "string option"
  u_full_name :: string
  u_role_id :: nat
  u_is_active :: int
  u_last_login :: "timestamp option"

text \<open>
  \<open>user_roles\<close> carries the columns the handlers name: \<open>role_id\<close> and \<open>role_name\<close>
  (register, login) and \<open>user_id\<close> (\<open>reject_vendor\<close>).
\<close>

record user_role_row =
  ur_role_id :: nat
  ur_role_name :: string
  ur_user_id :: "nat option"

record vendor_profile_row =
  vp_vendor_id :: nat
  vp_user_id :: nat
  vp_company_name :: string
  vp_verification_status :: string
  vp_rating :: "rat option"

record destination_row =
  d_destination_id :: nat
  d_name :: string
  d_country :: string
  d_description :: string
  d_image_url :: "string option"

record pending_destination_row =
  pd_pending_id :: nat
  pd_vendor_id :: "nat option"
  pd_name :: string
  pd_country :: string
  pd_description :: string
  pd_image_url :: "string option"
  pd_status :: string
  pd_reviewed_at :: "timestamp option"
  pd_reviewed_by :: "nat option"

record package_row =
  p_package_id :: nat
  p_vendor_id :: "nat option"
  p_destination_id :: "nat option"
  p_name :: "string option"
  p_description :: "string option"
  p_duration_days :: "int option"
  p_max_travelers :: "int option"
  p_includes :: "string option"
  p_image_url :: "string option"
  p_adult_price :: "rat option"
  p_child_price :: "rat option"
  p_infant_price :: "rat option"
  p_economy_adult_price :: "rat option"
  p_economy_child_price :: "rat option"
  p_economy_infant_price :: "rat option"
  p_business_adult_price :: "rat option"
  p_business_child_price :: "rat option"
  p_business_infant_price :: "rat option"
  p_is_active :: int

record pending_package_row =
  pp_pending_pkg_id :: nat
  pp_vendor_id :: "nat option"
  pp_destination_id :: "nat option"
  pp_name :: "string option"
  pp_description :: "string option"
  pp_duration_days :: "int option"
  pp_max_travelers :: "int option"
  pp_includes :: "string option"
  pp_image_url :: "string option"
  pp_adult_price :: "rat option"
  pp_child_price :: "rat option"
  pp_infant_price :: "rat option"
  pp_economy_adult_price :: "rat option"
  pp_economy_child_price :: "rat option"
  pp_economy_infant_price :: "rat option"
  pp_business_adult_price :: "rat option"
  pp_business_child_price :: "rat option"
  pp_business_infant_price :: "rat option"
  pp_status :: string
  pp_reviewed_at :: "timestamp option"
  pp_reviewed_by :: "nat option"

record booking_row =
  b_booking_id :: nat
  b_user_id :: nat
  b_package_id :: int
  b_from_location :: string
  b_to_location :: string
  b_departure_date :: nat
  b_departure_time :: string
  b_return_date :: "nat option"
  b_return_time :: "string option"
  b_preferred_airline :: string
  b_preferred_seating :: string
  b_num_adults :: int
  b_num_children :: int
  b_num_infants :: int
  b_num_travelers :: int
  b_fare_type :: string
  b_message :: string
  b_total_price :: rat
  b_customer_full_name :: string
  b_customer_phone :: string
  b_customer_email :: string
  b_status :: string
  b_booking_date :: timestamp

record review_row =
  rv_review_id :: nat
  rv_package_id :: nat
  rv_user_id :: "nat option"
  rv_user_name :: string
  rv_rating :: int

record database =
  users :: "user_row list"
  user_roles :: "user_role_row list"
  vendor_profiles :: "vendor_profile_row list"
  destinations :: "destination_row list"
  pending_destinations :: "pending_destination_row list"
  packages :: "package_row list"
  pending_packages :: "pending_package_row list"
  bookings :: "booking_row list"
  reviews :: "review_row list"
  destination_seq :: nat
  package_seq :: nat
  booking_seq :: nat
  review_id_seq :: nat

text \<open>
  What a request finds around it: whether \<open>get_db_connection()\<close> returns a connection,
  the database clock, and the database's \<open>TO_DATE(:d, 'YYYY-MM-DD')\<close> (\<open>Inl\<close>: the
  \<open>cx_Oracle.Error\<close> it raises on a malformed date).
\<close>

record env =
  connected :: bool
  now :: timestamp
  to_date :: "string \<Rightarrow> string + nat"

record session =
  s_user_id :: "nat option"
  s_username :: "string option"
  s_email :: "string option"
  s_full_name :: "string option"
  s_role :: "string option"
  s_vendor_id :: "nat option"

type_synonym response = "reply \<times> nat"

definition jsonify :: "bool \<Rightarrow> string \<Rightarrow> nat \<Rightarrow> response" where
  "jsonify ok msg code = (\<lparr>success = ok, message = msg\<rparr>, code)"

section \<open>app.py: role gates\<close>

definition admin_required :: "session \<Rightarrow> 'a \<Rightarrow> response \<times> 'a \<Rightarrow> response \<times> 'a" where
  "admin_required sess db handler =
     (if s_user_id sess = None then (jsonify False ''Authentication required'' 401, db)
      else if s_role sess \<noteq> Some ''admin'' then (jsonify False ''Admin access required'' 403, db)
      else handler)"

definition vendor_required :: "session \<Rightarrow> 'a \<Rightarrow> response \<times> 'a \<Rightarrow> response \<times> 'a" where
  "vendor_required sess db handler =
     (if s_user_id sess = None then (jsonify False ''Login required'' 401, db)
      else if s_role sess \<noteq> Some ''vendor'' \<and> s_role sess \<noteq> Some ''admin'' then
        (jsonify False ''Vendor access required'' 403, db)
      else handler)"

section \<open>app.py: moderation of destinations and packages\<close>

definition approve_destination :: "env \<Rightarrow> session \<Rightarrow> nat \<Rightarrow> database \<Rightarrow> response \<times> database" where
  "approve_destination e sess pending_id db =
     admin_required sess db
       (if \<not> connected e then (jsonify False ''Database connection failed'' 500, db)
        else
          (case find (\<lambda>r. pd_pending_id r = pending_id \<and> pd_status r = ''pending'')
                  (pending_destinations db) of
             None \<Rightarrow> (jsonify False ''Destination not found'' 404, db)
           | Some result \<Rightarrow>
               (let inserted = db\<lparr>destinations := destinations db @
                        [\<lparr>d_destination_id = destination_seq db,
                          d_name = pd_name result,
                          d_country = pd_country result,
                          d_description = pd_description result,
                          d_image_url = pd_image_url result\<rparr>],
                      destination_seq := Suc (destination_seq db)\<rparr>;
                    updated = inserted\<lparr>pending_destinations :=
                        map (\<lambda>r. if pd_pending_id r = pending_id
                                  then r\<lparr>pd_status := ''approved'',
                                         pd_reviewed_at := Some (now e),
                                         pd_reviewed_by := s_user_id sess\<rparr>
                                  else r)
                          (pending_destinations inserted)\<rparr>
                in (jsonify True ''Destination approved'' 200, updated))))"

definition reject_destination :: "env \<Rightarrow> session \<Rightarrow> nat \<Rightarrow> database \<Rightarrow> response \<times> database" where
  "reject_destination e sess pending_id db =
     admin_required sess db
       (if \<not> connected e then (jsonify False ''Database connection failed'' 500, db)
        else
          (jsonify True ''Destination rejected'' 200,
           db\<lparr>pending_destinations :=
                 map (\<lambda>r. if pd_pending_id r = pending_id
                           then r\<lparr>pd_status := ''rejected'',
                                  pd_reviewed_at := Some (now e),
                                  pd_reviewed_by := s_user_id sess\<rparr>
                           else r)
                   (pending_destinations db)\<rparr>))"

definition approve_package :: "env \<Rightarrow> session \<Rightarrow> nat \<Rightarrow> database \<Rightarrow> response \<times> database" where
  "approve_package e sess pending_pkg_id db =
     admin_required sess db
       (if \<not> connected e then (jsonify False ''Database connection failed'' 500, db)
        else
          (case find (\<lambda>r. pp_pending_pkg_id r = pending_pkg_id \<and> pp_status r = ''pending'')
                  (pending_packages db) of
             None \<Rightarrow> (jsonify False ''Package not found'' 404, db)
           | Some result \<Rightarrow>
               (let inserted = db\<lparr>packages := packages db @
                        [\<lparr>p_package_id = package_seq db,
                          p_vendor_id = pp_vendor_id result,
                          p_destination_id = pp_destination_id result,
                          p_name = pp_name result,
                          p_description = pp_description result,
                          p_duration_days = pp_duration_days result,
                          p_max_travelers = pp_max_travelers result,
                          p_includes = pp_includes result,
                          p_image_url = pp_image_url result,
                          p_adult_price = pp_adult_price result,
                          p_child_price = pp_child_price result,
                          p_infant_price = pp_infant_price result,
                          p_economy_adult_price = pp_economy_adult_price result,
                          p_economy_child_price = pp_economy_child_price result,
                          p_economy_infant_price = pp_economy_infant_price result,
                          p_business_adult_price = pp_business_adult_price result,
                          p_business_child_price = pp_business_child_price result,
                          p_business_infant_price = pp_business_infant_price result,
                          p_is_active = 1\<rparr>],
                      package_seq := Suc (package_seq db)\<rparr>;
                    updated = inserted\<lparr>pending_packages :=
                        map (\<lambda>r. if pp_pending_pkg_id r = pending_pkg_id
                                  then r\<lparr>pp_status := ''approved'',
                                         pp_reviewed_at := Some (now e),
                                         pp_reviewed_by := s_user_id sess\<rparr>
                                  else r)
                          (pending_packages inserted)\<rparr>
                in (jsonify True ''Package approved'' 200, updated))))"

definition reject_package :: "env \<Rightarrow> session \<Rightarrow> nat \<Rightarrow> database \<Rightarrow> response \<times> database" where
  "reject_package e sess pending_pkg_id db =
     admin_required sess db
       (if \<not> connected e then (jsonify False ''Database connection failed'' 500, db)
        else
          (jsonify True ''Package rejected'' 200,
           db\<lparr>pending_packages :=
                 map (\<lambda>r. if pp_pending_pkg_id r = pending_pkg_id
                           then r\<lparr>pp_status := ''rejected'',
                                  pp_reviewed_at := Some (now e),
                                  pp_reviewed_by := s_user_id sess\<rparr>
                           else r)
                   (pending_packages db)\<rparr>))"

section \<open>app.py: vendor accounts\<close>

definition approve_vendor :: "env \<Rightarrow> session \<Rightarrow> nat \<Rightarrow> database \<Rightarrow> response \<times> database" where
  "approve_vendor e sess vendor_id db =
     admin_required sess db
       (if \<not> connected e then (jsonify False ''Database connection failed'' 500, db)
        else
          (case find (\<lambda>v. vp_vendor_id v = vendor_id \<and> vp_verification_status v = ''pending'')
                  (vendor_profiles db) of
             None \<Rightarrow> (jsonify False ''Vendor not found or already processed'' 404, db)
           | Some result \<Rightarrow>
               (let user_id = vp_user_id result;
                    db1 = db\<lparr>vendor_profiles :=
                             map (\<lambda>v. if vp_vendor_id v = vendor_id
                                       then v\<lparr>vp_verification_status := ''verified''\<rparr> else v)
                               (vendor_profiles db)\<rparr>;
                    db2 = db1\<lparr>users :=
                             map (\<lambda>u. if u_user_id u = user_id then u\<lparr>u_is_active := 1\<rparr> else u)
                               (users db1)\<rparr>
                in (jsonify True ''Vendor approved successfully'' 200, db2))))"

definition reject_vendor :: "env \<Rightarrow> session \<Rightarrow> nat \<Rightarrow> database \<Rightarrow> response \<times> database" where
  "reject_vendor e sess vendor_id db =
     admin_required sess db
       (if \<not> connected e then (jsonify False ''Database connection failed'' 500, db)
        else
          (case find (\<lambda>v. vp_vendor_id v = vendor_id) (vendor_profiles db) of
             None \<Rightarrow> (jsonify False ''Vendor not found'' 404, db)
           | Some result \<Rightarrow>
               (let user_id = vp_user_id result;
                    db1 = db\<lparr>vendor_profiles :=
                             filter (\<lambda>v. vp_vendor_id v \<noteq> vendor_id) (vendor_profiles db)\<rparr>;
                    db2 = db1\<lparr>user_roles :=
                             filter (\<lambda>ur. ur_user_id ur \<noteq> Some user_id) (user_roles db1)\<rparr>;
                    db3 = db2\<lparr>users := filter (\<lambda>u. u_user_id u \<noteq> user_id) (users db2)\<rparr>
                in (jsonify True ''Vendor rejected and removed'' 200, db3))))"

section \<open>app.py: live packages\<close>

definition toggle_package_status ::
  "env \<Rightarrow> session \<Rightarrow> nat \<Rightarrow> database \<Rightarrow> response \<times> database" where
  "toggle_package_status e sess package_id db =
     vendor_required sess db
       (let vendor_id = s_vendor_id sess in
        if \<not> connected e then (jsonify False ''Database connection failed'' 500, db)
        else
          (case find (\<lambda>p. p_package_id p = package_id) (packages db) of
             None \<Rightarrow> (jsonify False ''Package not found'' 404, db)
           | Some result \<Rightarrow>
               if p_vendor_id result \<noteq> vendor_id then (jsonify False ''Unauthorized'' 403, db)
               else
                 (let new_status = (if p_is_active result = 1 then 0 else 1 :: int);
                      status_text = (if new_status = 1 then ''activated'' else ''deactivated'')
                  in (jsonify True (''Package '' @ status_text @ '' successfully'') 200,
                      db\<lparr>packages :=
                            map (\<lambda>p. if p_package_id p = package_id
                                      then p\<lparr>p_is_active := new_status\<rparr> else p)
                              (packages db)\<rparr>))))"

text \<open>
  A row of the public listing \<open>GET /api/packages\<close>: every column of the package, joined
  with its destination and its vendor's profile.
\<close>

record package_listing =
  pl_package :: package_row
  pl_destination_name :: string
  pl_country :: string
  pl_vendor_name :: string
  pl_vendor_rating :: "rat option"

definition listed_packages :: "database \<Rightarrow> package_listing list" where
  "listed_packages db =
     [\<lparr>pl_package = p, pl_destination_name = d_name d, pl_country = d_country d,
       pl_vendor_name = vp_company_name vp, pl_vendor_rating = vp_rating vp\<rparr>.
        p \<leftarrow> packages db, d \<leftarrow> destinations db, vp \<leftarrow> vendor_profiles db,
        p_destination_id p = Some (d_destination_id d),
        p_vendor_id p = Some (vp_vendor_id vp),
        p_is_active p = 1]"

text \<open>
  \<open>get_packages\<close> returns the rows under the key \<open>packages\<close>; the query parameter
  \<open>destination_id\<close> is taken at the numeric type of the column it is compared with.
\<close>

definition get_packages ::
  "env \<Rightarrow> nat option \<Rightarrow> database \<Rightarrow> response \<times> package_listing list" where
  "get_packages e destination_id db =
     (if \<not> connected e then (jsonify False ''Database connection failed'' 500, [])
      else
        (case destination_id of
           Some dest_id \<Rightarrow>
             (jsonify True [] 200,
              sort_key pl_vendor_name
                (filter (\<lambda>row. p_destination_id (pl_package row) = Some dest_id)
                   (listed_packages db)))
         | None \<Rightarrow> (jsonify True [] 200, sort_key pl_destination_name (listed_packages db))))"

section \<open>app.py: login\<close>

text \<open>
  The password primitives are external (werkzeug, hashlib): \<open>check_password_hash\<close> may
  raise (\<open>None\<close>), which the handler swallows; \<open>generate_password_hash\<close> likewise.
\<close>

record hashing =
  check_password_hash :: "string \<Rightarrow> string \<Rightarrow> bool option"
  sha256_hexdigest :: "string \<Rightarrow> string"
  generate_password_hash :: "string \<Rightarrow> string option"

record login_request =
  lr_username :: "string option"
  lr_password :: "string option"

definition left_join :: "'a list \<Rightarrow> 'a option list" where
  "left_join xs = (if xs = [] then [None] else map Some xs)"

definition login_rows ::
  "database \<Rightarrow> string \<Rightarrow> (user_row \<times> user_role_row \<times> vendor_profile_row option) list" where
  "login_rows db username =
     [(u, ur, vp).
        u \<leftarrow> users db, u_username u = username,
        ur \<leftarrow> user_roles db, u_role_id u = ur_role_id ur,
        vp \<leftarrow> left_join (filter (\<lambda>v. vp_user_id v = u_user_id u) (vendor_profiles db))]"

text \<open>The pair \<open>(verified, password_needs_rehash)\<close> after the two checks.\<close>

definition verify_password :: "hashing \<Rightarrow> string option \<Rightarrow> string \<Rightarrow> bool \<times> bool" where
  "verify_password hs stored_hash password =
     (if (case stored_hash of None \<Rightarrow> False
          | Some h \<Rightarrow> check_password_hash hs h password = Some True)
      then (True, False)
      else if Some (sha256_hexdigest hs password) = stored_hash then (True, True)
      else (False, False))"

definition login ::
  "env \<Rightarrow> hashing \<Rightarrow> login_request \<Rightarrow> session \<Rightarrow> database
     \<Rightarrow> response \<times> session \<times> database" where
  "login e hs data sess db =
     (let username = strip (get_or (lr_username data) []);
          password = get_or (lr_password data) []
      in
      if username = [] \<or> password = [] then
        (jsonify False ''Username and password required'' 400, sess, db)
      else if \<not> connected e then (jsonify False ''Database connection failed'' 500, sess, db)
      else
        (case login_rows db username of
           [] \<Rightarrow> (jsonify False ''Invalid credentials'' 401, sess, db)
         | (u, ur, vp) # rest \<Rightarrow>
             (case verify_password hs (u_password_hash u) password of
                (False, rehash) \<Rightarrow> (jsonify False ''Invalid credentials'' 401, sess, db)
              | (True, rehash) \<Rightarrow>
                  (let db1 =
                         (if rehash then
                            (case generate_password_hash hs password of
                               None \<Rightarrow> db
                             | Some new_hash \<Rightarrow>
                                 db\<lparr>users :=
                                      map (\<lambda>x. if u_user_id x = u_user_id u
                                                then x\<lparr>u_password_hash := Some new_hash\<rparr> else x)
                                        (users db)\<rparr>)
                          else db);
                       role_name = ur_role_name ur;
                       verification_status = map_option vp_verification_status vp
                   in
                   if u_is_active u = 0 then
                     (if role_name = ''vendor'' then
                        (jsonify False
                           ''Your vendor account is pending admin approval. Please wait for activation email.''
                           403, sess, db1)
                      else (jsonify False ''Account is inactive'' 403, sess, db1))
                   else if role_name = ''vendor'' \<and> verification_status \<noteq> Some ''verified'' then
                     (jsonify False
                        (''Vendor account status: '' @ get_or verification_status ''None''
                           @ ''. Please contact admin.'') 403, sess, db1)
                   else
                     (jsonify True ''Login successful'' 200,
                      sess\<lparr>s_user_id := Some (u_user_id u),
                           s_username := Some (u_username u),
                           s_email := Some (u_email u),
                           s_full_name := Some (u_full_name u),
                           s_role := Some role_name,
                           s_vendor_id :=
                             (case vp of
                                None \<Rightarrow> s_vendor_id sess
                              | Some v \<Rightarrow> if vp_vendor_id v = 0 then s_vendor_id sess
                                          else Some (vp_vendor_id v))\<rparr>,
                      db1\<lparr>users :=
                            map (\<lambda>x. if u_user_id x = u_user_id u
                                      then x\<lparr>u_last_login := Some (now e)\<rparr> else x)
                              (users db1)\<rparr>)))))"

section \<open>app.py: bookings\<close>

text \<open>
  The JSON body of \<open>POST /api/bookings\<close>, each field at the type the handler converts it
  to; \<open>None\<close> is an absent key.
\<close>

record booking_request =
  br_package_id :: "int option"
  br_from_location :: "string option"
  br_to_location :: "string option"
  br_departure_date :: "string option"
  br_departure_time :: "string option"
  br_preferred_airline :: "string option"
  br_preferred_seating :: "string option"
  br_num_adults :: "int option"
  br_num_children :: "int option"
  br_num_infants :: "int option"
  br_fare_type :: "string option"
  br_return_date :: "string option"
  br_return_time :: "string option"
  br_message :: "string option"
  br_full_name :: "string option"
  br_phone :: "string option"
  br_email :: "string option"
  br_total_price :: "rat option"

record booking_confirmation =
  bc_booking_id :: nat
  bc_total_price :: rat
  bc_package_name :: "string option"

text \<open>\<open>not data.get(field)\<close>: the key is absent or its value is falsy.\<close>

definition missing_str :: "string option \<Rightarrow> bool" where
  "missing_str v = (v = None \<or> v = Some [])"

definition missing_int :: "int option \<Rightarrow> bool" where
  "missing_int v = (v = None \<or> v = Some 0)"

definition missing_num :: "rat option \<Rightarrow> bool" where
  "missing_num v = (v = None \<or> v = Some 0)"

definition first_missing :: "booking_request \<Rightarrow> string option" where
  "first_missing data =
     map_option fst (find snd
       [(''package_id'', missing_int (br_package_id data)),
        (''from_location'', missing_str (br_from_location data)),
        (''to_location'', missing_str (br_to_location data)),
        (''departure_date'', missing_str (br_departure_date data)),
        (''departure_time'', missing_str (br_departure_time data)),
        (''preferred_airline'', missing_str (br_preferred_airline data)),
        (''preferred_seating'', missing_str (br_preferred_seating data)),
        (''num_adults'', missing_int (br_num_adults data)),
        (''fare_type'', missing_str (br_fare_type data)),
        (''full_name'', missing_str (br_full_name data)),
        (''phone'', missing_str (br_phone data)),
        (''email'', missing_str (br_email data)),
        (''total_price'', missing_num (br_total_price data))])"

definition nonempty :: "string option \<Rightarrow> string option" where
  "nonempty v = (case v of None \<Rightarrow> None | Some x \<Rightarrow> if x = [] then None else Some x)"

text \<open>The two \<open>TO_DATE\<close> conversions of the INSERT; either may raise.\<close>

definition booking_dates :: "env \<Rightarrow> string \<Rightarrow> string option \<Rightarrow> string + nat \<times> nat option" where
  "booking_dates e departure_date return_date =
     (case to_date e departure_date of
        Inl error \<Rightarrow> Inl error
      | Inr dep \<Rightarrow>
          (case nonempty return_date of
             None \<Rightarrow> Inr (dep, None)
           | Some rd \<Rightarrow>
               (case to_date e rd of Inl error \<Rightarrow> Inl error | Inr ret \<Rightarrow> Inr (dep, Some ret))))"

definition create_booking ::
  "(string \<Rightarrow> string) \<Rightarrow> env \<Rightarrow> session \<Rightarrow> booking_request \<Rightarrow> database
     \<Rightarrow> (response \<times> booking_confirmation option) \<times> database" where
  "create_booking lower e sess data db =
     (case s_user_id sess of
        None \<Rightarrow> ((jsonify False ''Please login to make a booking.'' 401, None), db)
      | Some user_id \<Rightarrow>
        if user_id = 0 then ((jsonify False ''Please login to make a booking.'' 401, None), db)
        else
        (case first_missing data of
           Some field \<Rightarrow> ((jsonify False (field @ '' is required'') 400, None), db)
         | None \<Rightarrow>
           (let package_id = get_or (br_package_id data) 0;
                from_location = strip (get_or (br_from_location data) []);
                to_location = strip (get_or (br_to_location data) []);
                departure_date = strip (get_or (br_departure_date data) []);
                departure_time = strip (get_or (br_departure_time data) []);
                preferred_airline = get_or (br_preferred_airline data) [];
                preferred_seating = get_or (br_preferred_seating data) [];
                num_adults = get_or (br_num_adults data) 1;
                num_children = get_or (br_num_children data) 0;
                num_infants = get_or (br_num_infants data) 0;
                fare_type = get_or (br_fare_type data) [];
                return_date = (if fare_type = ''round_trip''
                               then Some (strip (get_or (br_return_date data) [])) else None);
                return_time = (if fare_type = ''round_trip''
                               then Some (strip (get_or (br_return_time data) [])) else None);
                message = strip (get_or (br_message data) []);
                full_name = strip (get_or (br_full_name data) []);
                phone = strip (get_or (br_phone data) []);
                email = lower (strip (get_or (br_email data) []));
                total_price = get_or (br_total_price data) 0;
                total_travelers = num_adults + num_children + num_infants
            in
            if CHR ''@'' \<notin> set email \<or> CHR ''.'' \<notin> set email then
              ((jsonify False ''Invalid email format'' 400, None), db)
            else if fare_type = ''round_trip''
                    \<and> (nonempty return_date = None \<or> nonempty return_time = None) then
              ((jsonify False ''Return date and time required for round trip'' 400, None), db)
            else if total_travelers = 0 then
              ((jsonify False ''At least one traveler is required'' 400, None), db)
            else if total_price \<le> 0 then
              ((jsonify False ''Invalid total price'' 400, None), db)
            else if \<not> connected e then
              ((jsonify False ''Database connection failed'' 500, None), db)
            else
              (case find (\<lambda>p. int (p_package_id p) = package_id) (packages db) of
                 None \<Rightarrow> ((jsonify False ''Selected package not found'' 404, None), db)
               | Some package_row \<Rightarrow>
                   (case booking_dates e departure_date return_date of
                      Inl error \<Rightarrow> ((jsonify False (''Booking failed: '' @ error) 500, None), db)
                    | Inr (dep, ret) \<Rightarrow>
                        ((jsonify True ''Booking submitted! Proceeding to payment...'' 201,
                          Some \<lparr>bc_booking_id = booking_seq db,
                                bc_total_price = total_price,
                                bc_package_name = p_name package_row\<rparr>),
                         db\<lparr>bookings := bookings db @
                               [\<lparr>b_booking_id = booking_seq db,
                                 b_user_id = user_id,
                                 b_package_id = package_id,
                                 b_from_location = from_location,
                                 b_to_location = to_location,
                                 b_departure_date = dep,
                                 b_departure_time = departure_time,
                                 b_return_date = ret,
                                 b_return_time = nonempty return_time,
                                 b_preferred_airline = preferred_airline,
                                 b_preferred_seating = preferred_seating,
                                 b_num_adults = num_adults,
                                 b_num_children = num_children,
                                 b_num_infants = num_infants,
                                 b_num_travelers = total_travelers,
                                 b_fare_type = fare_type,
                                 b_message = message,
                                 b_total_price = total_price,
                                 b_customer_full_name = full_name,
                                 b_customer_phone = phone,
                                 b_customer_email = email,
                                 b_status = ''pending'',
                                 b_booking_date = now e\<rparr>],
                             booking_seq := Suc (booking_seq db)\<rparr>))))))"

text \<open>
  The total the specification asks for, in its words: traveler counts times the package's
  tier prices for the chosen seating class. No handler computes it.
\<close>

definition times_price :: "int \<Rightarrow> rat option \<Rightarrow> rat" where
  "times_price n price = of_int n * get_or price 0"

definition spec_tier_total :: "package_row \<Rightarrow> string \<Rightarrow> int \<Rightarrow> int \<Rightarrow> int \<Rightarrow> rat" where
  "spec_tier_total pkg seating n_adults n_children n_infants =
     (if seating = ''business'' then
        times_price n_adults (p_business_adult_price pkg)
        + times_price n_children (p_business_child_price pkg)
        + times_price n_infants (p_business_infant_price pkg)
      else
        times_price n_adults (p_economy_adult_price pkg)
        + times_price n_children (p_economy_child_price pkg)
        + times_price n_infants (p_economy_infant_price pkg))"

section \<open>app.py: the chat endpoint\<close>





section \<open>app.py: reviews\<close>

datatype json_value =
    JNull
  | JBool bool
  | JInt int
  | JFloat rat
  | JStr string
  | JArray "json_value list"
  | JObject "(string \<times> json_value) list"

text \<open>Python truthiness of a decoded JSON value (\<open>not rating\<close> is its negation).\<close>

fun truthy :: "json_value \<Rightarrow> bool" where
  "truthy JNull = False"
| "truthy (JBool b) = b"
| "truthy (JInt i) = (i \<noteq> 0)"
| "truthy (JFloat q) = (q \<noteq> 0)"
| "truthy (JStr s) = (s \<noteq> [])"
| "truthy (JArray xs) = (xs \<noteq> [])"
| "truthy (JObject kvs) = (kvs \<noteq> [])"

definition trunc :: "rat \<Rightarrow> int" where
  "trunc q = (if 0 \<le> q then \<lfloor>q\<rfloor> else \<lceil>q\<rceil>)"

text \<open>
  \<open>int(rating)\<close>: a float is truncated toward zero; a string goes through Python's
  integer parser, taken as the parameter \<open>parse\<close> (\<open>None\<close>: it raises \<open>ValueError\<close>);
  the other values raise \<open>TypeError\<close>.
\<close>

fun py_int :: "(string \<Rightarrow> int option) \<Rightarrow> json_value \<Rightarrow> py_exception + int" where
  "py_int parse JNull = Inl TypeError"
| "py_int parse (JBool b) = Inr (if b then 1 else 0)"
| "py_int parse (JInt i) = Inr i"
| "py_int parse (JFloat q) = Inr (trunc q)"
| "py_int parse (JStr s) = (case parse s of None \<Rightarrow> Inl ValueError | Some i \<Rightarrow> Inr i)"
| "py_int parse (JArray xs) = Inl TypeError"
| "py_int parse (JObject kvs) = Inl TypeError"

record review_submission =
  rs_rating :: "json_value option"
  rs_user_name :: "string option"

text \<open>
  Every exception lands in the handler's \<open>except Exception\<close>: rollback and a 500 whose
  message is \<open>Failed to submit review:\<close> followed by the exception's text (the text is
  left out here). With no connection, \<open>connection.cursor()\<close> is such an exception.
\<close>

definition submit_review ::
  "env \<Rightarrow> (string \<Rightarrow> int option) \<Rightarrow> session \<Rightarrow> nat \<Rightarrow> review_submission \<Rightarrow> database
     \<Rightarrow> response \<times> database" where
  "submit_review e parse sess package_id data db =
     (let rating = get_or (rs_rating data) JNull in
      if \<not> truthy rating then (jsonify False ''Please provide a valid rating (1-5)'' 400, db)
      else
        (case py_int parse rating of
           Inl error \<Rightarrow> (jsonify False ''Failed to submit review: '' 500, db)
         | Inr n \<Rightarrow>
             if n \<notin> set [1, 2, 3, 4, 5] then
               (jsonify False ''Please provide a valid rating (1-5)'' 400, db)
             else
               (let stripped = strip (get_or (rs_user_name data) []);
                    user_name = (if stripped = [] then ''Anonymous'' else stripped)
                in
                if \<not> connected e then (jsonify False ''Failed to submit review: '' 500, db)
                else
                  (case find (\<lambda>p. p_package_id p = package_id) (packages db) of
                     None \<Rightarrow> (jsonify False ''Package not found'' 404, db)
                   | Some found \<Rightarrow>
                       (jsonify True ''Review submitted successfully!'' 200,
                        db\<lparr>reviews := reviews db @
                              [\<lparr>rv_review_id = review_id_seq db,
                                rv_package_id = package_id,
                                rv_user_id = s_user_id sess,
                                rv_user_name = user_name,
                                rv_rating = n\<rparr>],
                            review_id_seq := Suc (review_id_seq db)\<rparr>)))))"

definition anonymous :: session where
  "anonymous =
     \<lparr>s_user_id = None, s_username = None, s_email = None, s_full_name = None,
      s_role = None, s_vendor_id = None\<rparr>"


text \<open>Sample collaborators for the concrete instances below.\<close>

definition failing_provider :: provider where
  "failing_provider =
     \<lparr>chat_completion = (\<lambda>_. Inl ''connection refused''),
      recommend_completion = (\<lambda>_. Inl ''connection refused''),
      intent_completion = (\<lambda>_. Inl ''connection refused''),
      review_completion = (\<lambda>_. Inl ''connection refused'')\<rparr>"

definition sample_float_ops :: float_ops where
  "sample_float_ops = \<lparr>fmt_1f = (\<lambda>_. ''4.0''), round_1 = (\<lambda>q. q)\<rparr>"

section \<open>Sample data\<close>

text \<open>
  A stand-in for \<open>str.lower()\<close> in the concrete instances: it folds \<open>A\<close>..\<open>Z\<close>, which is
  what \<open>str.lower()\<close> does on the ASCII strings of the samples.
\<close>

definition lower_char :: "char \<Rightarrow> char" where
  "lower_char c =
     (let n = (of_char c :: nat) in if 65 \<le> n \<and> n \<le> 90 then char_of (n + 32) else c)"

definition ascii_lower :: "string \<Rightarrow> string" where
  "ascii_lower s = map lower_char s"

definition sample_env :: env where
  "sample_env =
     \<lparr>connected = True, now = 1000,
      to_date = (\<lambda>s. if length s = 10 then Inr 20260101
                     else Inl ''ORA-01861: literal does not match format string'')\<rparr>"

definition sample_admin :: session where
  "sample_admin =
     \<lparr>s_user_id = Some 1, s_username = Some ''root'', s_email = Some ''root@example.com'',
      s_full_name = Some ''Site Admin'', s_role = Some ''admin'', s_vendor_id = None\<rparr>"

definition sample_vendor :: session where
  "sample_vendor =
     \<lparr>s_user_id = Some 7, s_username = Some ''skyways'', s_email = Some ''ops@skyways.example'',
      s_full_name = Some ''Sky Ways'', s_role = Some ''vendor'', s_vendor_id = Some 3\<rparr>"

definition sample_pending_destination :: pending_destination_row where
  "sample_pending_destination =
     \<lparr>pd_pending_id = 1, pd_vendor_id = Some 3, pd_name = ''Hunza'', pd_country = ''Pakistan'',
      pd_description = ''Mountain valley'', pd_image_url = None, pd_status = ''pending'',
      pd_reviewed_at = None, pd_reviewed_by = None\<rparr>"

definition sample_pending_package :: pending_package_row where
  "sample_pending_package =
     \<lparr>pp_pending_pkg_id = 1, pp_vendor_id = Some 3, pp_destination_id = Some 1,
      pp_name = Some ''Hunza week'', pp_description = Some ''Seven days in the valley'',
      pp_duration_days = Some 7, pp_max_travelers = Some 10, pp_includes = Some ''Hotel'',
      pp_image_url = None, pp_adult_price = Some 900, pp_child_price = Some 450,
      pp_infant_price = Some 90, pp_economy_adult_price = Some 900,
      pp_economy_child_price = Some 450, pp_economy_infant_price = Some 90,
      pp_business_adult_price = Some 1800, pp_business_child_price = Some 900,
      pp_business_infant_price = Some 180, pp_status = ''pending'',
      pp_reviewed_at = None, pp_reviewed_by = None\<rparr>"

definition sample_package :: package_row where
  "sample_package =
     \<lparr>p_package_id = 1, p_vendor_id = Some 3, p_destination_id = Some 1,
      p_name = Some ''Lahore weekend'', p_description = Some ''Two days in the old city'',
      p_duration_days = Some 2, p_max_travelers = Some 6, p_includes = Some ''Guide'',
      p_image_url = None, p_adult_price = Some 100, p_child_price = Some 100,
      p_infant_price = Some 100, p_economy_adult_price = Some 100,
      p_economy_child_price = Some 100, p_economy_infant_price = Some 100,
      p_business_adult_price = Some 100, p_business_child_price = Some 100,
      p_business_infant_price = Some 100, p_is_active = 1\<rparr>"

definition sample_booking :: booking_row where
  "sample_booking =
     \<lparr>b_booking_id = 1, b_user_id = 7, b_package_id = 1, b_from_location = ''Karachi'',
      b_to_location = ''Lahore'', b_departure_date = 20260101, b_departure_time = ''09:00'',
      b_return_date = None, b_return_time = None, b_preferred_airline = ''PIA'',
      b_preferred_seating = ''economy'', b_num_adults = 1, b_num_children = 0,
      b_num_infants = 0, b_num_travelers = 1, b_fare_type = ''one_way'', b_message = [],
      b_total_price = 100, b_customer_full_name = ''Sky Ways'', b_customer_phone = ''0300'',
      b_customer_email = ''ops@skyways.example'', b_status = ''pending'',
      b_booking_date = 900\<rparr>"

definition sample_db :: database where
  "sample_db =
     \<lparr>users =
        [\<lparr>u_user_id = 1, u_username = ''root'', u_email = ''root@example.com'',
          u_password_hash = Some ''h-root'', u_full_name = ''Site Admin'', u_role_id = 1,
          u_is_active = 1, u_last_login = None\<rparr>,
         \<lparr>u_user_id = 7, u_username = ''skyways'', u_email = ''ops@skyways.example'',
          u_password_hash = Some ''h-sky'', u_full_name = ''Sky Ways'', u_role_id = 2,
          u_is_active = 1, u_last_login = Some 800\<rparr>],
      user_roles =
        [\<lparr>ur_role_id = 1, ur_role_name = ''admin'', ur_user_id = Some 1\<rparr>,
         \<lparr>ur_role_id = 2, ur_role_name = ''vendor'', ur_user_id = Some 7\<rparr>],
      vendor_profiles =
        [\<lparr>vp_vendor_id = 3, vp_user_id = 7, vp_company_name = ''Sky Ways'',
          vp_verification_status = ''verified'', vp_rating = Some 4\<rparr>],
      destinations =
        [\<lparr>d_destination_id = 1, d_name = ''Lahore'', d_country = ''Pakistan'',
          d_description = ''Old city'', d_image_url = None\<rparr>],
      pending_destinations = [sample_pending_destination],
      packages = [sample_package],
      pending_packages = [sample_pending_package],
      bookings = [sample_booking],
      reviews = [],
      destination_seq = 2, package_seq = 2, booking_seq = 2, review_id_seq = 1\<rparr>"

definition sample_hashing :: hashing where
  "sample_hashing =
     \<lparr>check_password_hash = (\<lambda>h pw. Some (h = ''h-'' @ pw)),
      sha256_hexdigest = (\<lambda>pw. ''sha-'' @ pw),
      generate_password_hash = (\<lambda>pw. Some (''h-'' @ pw))\<rparr>"

definition sample_booking_request :: booking_request where
  "sample_booking_request =
     \<lparr>br_package_id = Some 1, br_from_location = Some ''Karachi'',
      br_to_location = Some ''Lahore'', br_departure_date = Some ''2026-01-01'',
      br_departure_time = Some ''09:00'', br_preferred_airline = Some ''PIA'',
      br_preferred_seating = Some ''economy'', br_num_adults = Some 3,
      br_num_children = None, br_num_infants = None, br_fare_type = Some ''one_way'',
      br_return_date = None, br_return_time = None, br_message = None,
      br_full_name = Some ''Sky Ways'', br_phone = Some ''0300'',
      br_email = Some ''ops@skyways.example'', br_total_price = Some 1\<rparr>"

section \<open>Properties of strings\<close>

lemma drop_leading_none:
  "find (\<lambda>w. w \<noteq> [] \<and> prefix w s) ws = None \<Longrightarrow> drop_leading ws s = s"
  by (simp add: drop_leading.simps)




lemma strip_Nil: "strip [] = []"
proof -
  have "\<And>ws. find (\<lambda>w. w \<noteq> [] \<and> prefix w []) ws = None"
    by (simp add: find_None_iff)
  then have "\<And>ws. drop_leading ws [] = []"
    by (rule drop_leading_none)
  then show ?thesis
    by (simp add: strip_def lstrip_def rstrip_def)
qed



text \<open>
  \<open>strip\<close> on the sample strings, and on strings padded with a no-break space (U+00A0)
  or made of Unicode spaces only.
\<close>

lemma sample_strips:
  "strip ''Karachi'' = ''Karachi''" "strip ''Lahore'' = ''Lahore''"
  "strip ''2026-01-01'' = ''2026-01-01''" "strip ''09:00'' = ''09:00''"
  "strip ''Sky Ways'' = ''Sky Ways''" "strip ''0300'' = ''0300''"
  "strip ''ops@skyways.example'' = ''ops@skyways.example''"
  "strip '' skyways '' = ''skyways''" "strip ''skyways'' = ''skyways''"
  "strip (''skyways'' @ [CHR 0xC2, CHR 0xA0]) = ''skyways''"
  "strip [CHR 0xC2, CHR 0xA0] = []"
  "strip ''hello'' = ''hello''" "strip ''where to?'' = ''where to?''"
  "strip ''How much is Hunza?'' = ''How much is Hunza?''"
  by code_simp+

lemma sample_lowers:
  "ascii_lower ''ops@skyways.example'' = ''ops@skyways.example''"
  "ascii_lower ''How much is Hunza?'' = ''how much is hunza?''"
  by code_simp+

section \<open>Properties of the assistant\<close>

lemma default_replies_shape: "length default_replies = 5 \<and> [] \<notin> set default_replies"
  by (simp add: default_replies_def)

text \<open>
  C9: for every context (absent, empty or any string) \<open>get_quick_replies\<close> returns exactly
  five suggestions, none of them empty, and the list is the same whatever the chatbot's
  client is: it is computed from the context alone and the provider is never consulted.
\<close>

theorem get_quick_replies_five:
  "length (get_quick_replies lower self context) = 5
   \<and> [] \<notin> set (get_quick_replies lower self context)
   \<and> get_quick_replies lower self context = get_quick_replies lower self' context"
  using default_replies_shape
  by (simp add: get_quick_replies_def Let_def split: option.split)

text \<open>
  C10: a list of at most two reviews gets a result (never an exception) whose sentiment is
  \<open>neutral\<close>; the result does not depend on what the provider would answer (any two
  clients give the same result); and the empty list gets the fixed "No reviews yet"
  summary whether a client is available or not.
\<close>

theorem summarize_reviews_small:
  "length revs \<le> 2 \<Longrightarrow>
     (\<exists>r. summarize_reviews fl self revs package_name = Inr r \<and> sentiment r = ''neutral'')
     \<and> summarize_reviews fl (self\<lparr>client := Some p\<rparr>) revs package_name
         = summarize_reviews fl' (self\<lparr>client := Some p'\<rparr>) revs package_name'
     \<and> summarize_reviews fl self [] package_name
         = Inr \<lparr>summary = ''No reviews yet. Be the first to share your experience!'',
                sentiment = ''neutral'', key_points = [], pros = None, cons = None,
                total_reviews = None, avg_rating = None\<rparr>"
  by (simp add: summarize_reviews_def no_reviews_summary_def initial_summary_def
      split: option.split)

theorem summarize_reviews_small_witness:
  "length [\<lparr>rating = Some 4\<rparr>] \<le> 2
   \<and> (\<exists>r. summarize_reviews sample_float_ops (TravelChatbot (Some failing_provider))
              [\<lparr>rating = Some 4\<rparr>] ''City break'' = Inr r
          \<and> sentiment r = ''neutral'')"
  using summarize_reviews_small
    [of "[\<lparr>rating = Some 4\<rparr>]" sample_float_ops "TravelChatbot (Some failing_provider)"
        "''City break''"]
  by simp

section \<open>Properties of moderation\<close>

lemma key_unique:
  "distinct (map k xs) \<Longrightarrow> r \<in> set xs \<Longrightarrow> x \<in> set xs \<Longrightarrow> k x = k r \<Longrightarrow> x = r"
  by (induction xs) (auto simp: image_iff)

lemma find_unique:
  "distinct (map k xs) \<Longrightarrow> r \<in> set xs \<Longrightarrow> P r \<Longrightarrow>
     find (\<lambda>x. k x = k r \<and> P x) xs = Some r"
  by (induction xs) (auto simp: image_iff)

lemma find_key:
  "distinct (map k xs) \<Longrightarrow> r \<in> set xs \<Longrightarrow> find (\<lambda>x. k x = k r) xs = Some r"
  by (induction xs) (auto simp: image_iff)

lemma map_upd_unique:
  assumes "distinct (map k xs)" "r \<in> set xs"
  shows "map (\<lambda>x. if k x = k r then f x else x) xs = map (\<lambda>x. if x = r then f r else x) xs"
proof (rule map_cong)
  show "xs = xs" by simp
next
  fix x assume "x \<in> set xs"
  then have "k x = k r \<longleftrightarrow> x = r"
    using key_unique[OF assms] by blast
  then show "(if k x = k r then f x else x) = (if x = r then f r else x)"
    by auto
qed

lemma approve_destination_eq:
  assumes "connected e" "s_user_id sess = Some admin" "s_role sess = Some ''admin''"
    and d: "distinct (map pd_pending_id (pending_destinations db))"
    and r: "r \<in> set (pending_destinations db)" and p: "pd_status r = ''pending''"
  shows "approve_destination e sess (pd_pending_id r) db =
     (jsonify True ''Destination approved'' 200,
      db\<lparr>destinations := destinations db @
             [\<lparr>d_destination_id = destination_seq db, d_name = pd_name r,
               d_country = pd_country r, d_description = pd_description r,
               d_image_url = pd_image_url r\<rparr>],
          destination_seq := Suc (destination_seq db),
          pending_destinations :=
            map (\<lambda>x. if x = r then r\<lparr>pd_status := ''approved'', pd_reviewed_at := Some (now e),
                                       pd_reviewed_by := s_user_id sess\<rparr> else x)
              (pending_destinations db)\<rparr>)"
proof -
  have f: "find (\<lambda>x. pd_pending_id x = pd_pending_id r \<and> pd_status x = ''pending'')
             (pending_destinations db) = Some r"
    using find_unique[of pd_pending_id "pending_destinations db" r
                         "\<lambda>x. pd_status x = ''pending''"] d r p
    by simp
  have m: "map (\<lambda>x. if pd_pending_id x = pd_pending_id r
                  then x\<lparr>pd_status := ''approved'', pd_reviewed_at := Some (now e),
                         pd_reviewed_by := s_user_id sess\<rparr> else x) (pending_destinations db)
         = map (\<lambda>x. if x = r then r\<lparr>pd_status := ''approved'', pd_reviewed_at := Some (now e),
                                       pd_reviewed_by := s_user_id sess\<rparr> else x)
              (pending_destinations db)"
    by (rule map_upd_unique[OF d r])
  show ?thesis
    using assms(1-3) f
    by (simp add: approve_destination_def admin_required_def Let_def m)
qed

lemma approve_package_eq:
  assumes "connected e" "s_user_id sess = Some admin" "s_role sess = Some ''admin''"
    and d: "distinct (map pp_pending_pkg_id (pending_packages db))"
    and r: "q \<in> set (pending_packages db)" and p: "pp_status q = ''pending''"
  shows "approve_package e sess (pp_pending_pkg_id q) db =
     (jsonify True ''Package approved'' 200,
      db\<lparr>packages := packages db @
             [\<lparr>p_package_id = package_seq db,
               p_vendor_id = pp_vendor_id q,
               p_destination_id = pp_destination_id q,
               p_name = pp_name q,
               p_description = pp_description q,
               p_duration_days = pp_duration_days q,
               p_max_travelers = pp_max_travelers q,
               p_includes = pp_includes q,
               p_image_url = pp_image_url q,
               p_adult_price = pp_adult_price q,
               p_child_price = pp_child_price q,
               p_infant_price = pp_infant_price q,
               p_economy_adult_price = pp_economy_adult_price q,
               p_economy_child_price = pp_economy_child_price q,
               p_economy_infant_price = pp_economy_infant_price q,
               p_business_adult_price = pp_business_adult_price q,
               p_business_child_price = pp_business_child_price q,
               p_business_infant_price = pp_business_infant_price q,
               p_is_active = 1\<rparr>],
          package_seq := Suc (package_seq db),
          pending_packages :=
            map (\<lambda>x. if x = q then q\<lparr>pp_status := ''approved'', pp_reviewed_at := Some (now e),
                                       pp_reviewed_by := s_user_id sess\<rparr> else x)
              (pending_packages db)\<rparr>)"
proof -
  have f: "find (\<lambda>x. pp_pending_pkg_id x = pp_pending_pkg_id q \<and> pp_status x = ''pending'')
             (pending_packages db) = Some q"
    using find_unique[of pp_pending_pkg_id "pending_packages db" q
                         "\<lambda>x. pp_status x = ''pending''"] d r p
    by simp
  have m: "map (\<lambda>x. if pp_pending_pkg_id x = pp_pending_pkg_id q
                  then x\<lparr>pp_status := ''approved'', pp_reviewed_at := Some (now e),
                         pp_reviewed_by := s_user_id sess\<rparr> else x) (pending_packages db)
         = map (\<lambda>x. if x = q then q\<lparr>pp_status := ''approved'', pp_reviewed_at := Some (now e),
                                       pp_reviewed_by := s_user_id sess\<rparr> else x)
              (pending_packages db)"
    by (rule map_upd_unique[OF d r])
  show ?thesis
    using assms(1-3) f
    by (simp add: approve_package_def admin_required_def Let_def m)
qed
text \<open>
  C1: approving a pending destination or package row (status \<open>pending\<close>, found by its
  unique id, by an admin, with the database reachable) appends exactly one row to the live
  table, each column copied from the pending row, and replaces the pending row by itself
  with status \<open>approved\<close>, the review time and the reviewer's id; nothing else changes.
\<close>

theorem approve_copies_pending_row:
  assumes "connected e" "s_user_id sess = Some admin" "s_role sess = Some ''admin''"
  shows "(distinct (map pd_pending_id (pending_destinations db))
          \<and> r \<in> set (pending_destinations db) \<and> pd_status r = ''pending'' \<longrightarrow>
          approve_destination e sess (pd_pending_id r) db =
            (jsonify True ''Destination approved'' 200,
             db\<lparr>destinations := destinations db @
                    [\<lparr>d_destination_id = destination_seq db, d_name = pd_name r,
                      d_country = pd_country r, d_description = pd_description r,
                      d_image_url = pd_image_url r\<rparr>],
                 destination_seq := Suc (destination_seq db),
                 pending_destinations :=
                   map (\<lambda>x. if x = r
                             then r\<lparr>pd_status := ''approved'', pd_reviewed_at := Some (now e),
                                    pd_reviewed_by := s_user_id sess\<rparr>
                             else x)
                     (pending_destinations db)\<rparr>))
       \<and> (distinct (map pp_pending_pkg_id (pending_packages db))
          \<and> q \<in> set (pending_packages db) \<and> pp_status q = ''pending'' \<longrightarrow>
          approve_package e sess (pp_pending_pkg_id q) db =
            (jsonify True ''Package approved'' 200,
             db\<lparr>packages := packages db @
                    [\<lparr>p_package_id = package_seq db,
                      p_vendor_id = pp_vendor_id q,
                      p_destination_id = pp_destination_id q,
                      p_name = pp_name q,
                      p_description = pp_description q,
                      p_duration_days = pp_duration_days q,
                      p_max_travelers = pp_max_travelers q,
                      p_includes = pp_includes q,
                      p_image_url = pp_image_url q,
                      p_adult_price = pp_adult_price q,
                      p_child_price = pp_child_price q,
                      p_infant_price = pp_infant_price q,
                      p_economy_adult_price = pp_economy_adult_price q,
                      p_economy_child_price = pp_economy_child_price q,
                      p_economy_infant_price = pp_economy_infant_price q,
                      p_business_adult_price = pp_business_adult_price q,
                      p_business_child_price = pp_business_child_price q,
                      p_business_infant_price = pp_business_infant_price q,
                      p_is_active = 1\<rparr>],
                 package_seq := Suc (package_seq db),
                 pending_packages :=
                   map (\<lambda>x. if x = q
                             then q\<lparr>pp_status := ''approved'', pp_reviewed_at := Some (now e),
                                    pp_reviewed_by := s_user_id sess\<rparr>
                             else x)
                     (pending_packages db)\<rparr>))"
  using approve_destination_eq[OF assms] approve_package_eq[OF assms] by blast

lemma sample_db_tables:
  "pending_destinations sample_db = [sample_pending_destination]"
  "pending_packages sample_db = [sample_pending_package]"
  "packages sample_db = [sample_package]"
  "bookings sample_db = [sample_booking]"
  "destination_seq sample_db = 2" "package_seq sample_db = 2"
  by (simp_all add: sample_db_def)

lemma sample_admin_fields:
  "s_user_id sample_admin = Some 1" "s_role sample_admin = Some ''admin''"
  by (simp_all add: sample_admin_def)

lemma sample_env_fields: "connected sample_env" "now sample_env = 1000"
  by (simp_all add: sample_env_def)

theorem approve_copies_pending_row_witness:
  "connected sample_env \<and> s_user_id sample_admin = Some 1 \<and> s_role sample_admin = Some ''admin''
   \<and> distinct (map pd_pending_id (pending_destinations sample_db))
   \<and> sample_pending_destination \<in> set (pending_destinations sample_db)
   \<and> pd_status sample_pending_destination = ''pending''
   \<and> distinct (map pp_pending_pkg_id (pending_packages sample_db))
   \<and> sample_pending_package \<in> set (pending_packages sample_db)
   \<and> pp_status sample_pending_package = ''pending''
   \<and> map d_name (destinations (snd (approve_destination sample_env sample_admin
          (pd_pending_id sample_pending_destination) sample_db))) = [''Lahore'', ''Hunza'']
   \<and> map pd_status (pending_destinations (snd (approve_destination sample_env sample_admin
          (pd_pending_id sample_pending_destination) sample_db))) = [''approved'']
   \<and> map p_name (packages (snd (approve_package sample_env sample_admin
          (pp_pending_pkg_id sample_pending_package) sample_db)))
        = [Some ''Lahore weekend'', Some ''Hunza week'']
   \<and> map pp_status (pending_packages (snd (approve_package sample_env sample_admin
          (pp_pending_pkg_id sample_pending_package) sample_db))) = [''approved'']"
proof -
  have hd: "distinct (map pd_pending_id (pending_destinations sample_db))
            \<and> sample_pending_destination \<in> set (pending_destinations sample_db)
            \<and> pd_status sample_pending_destination = ''pending''"
    by (simp add: sample_db_tables sample_pending_destination_def)
  have hp: "distinct (map pp_pending_pkg_id (pending_packages sample_db))
            \<and> sample_pending_package \<in> set (pending_packages sample_db)
            \<and> pp_status sample_pending_package = ''pending''"
    by (simp add: sample_db_tables sample_pending_package_def)
  note t = approve_copies_pending_row
    [OF sample_env_fields(1) sample_admin_fields(1) sample_admin_fields(2),
     of sample_db sample_pending_destination sample_pending_package]
  have d1: "map d_name (destinations (snd (approve_destination sample_env sample_admin
          (pd_pending_id sample_pending_destination) sample_db))) = [''Lahore'', ''Hunza'']"
    using t hd by (simp add: sample_db_def sample_pending_destination_def)
  have d2: "map pd_status (pending_destinations (snd (approve_destination sample_env
          sample_admin (pd_pending_id sample_pending_destination) sample_db))) = [''approved'']"
    using t hd by (simp add: sample_db_tables)
  have p1: "map p_name (packages (snd (approve_package sample_env sample_admin
          (pp_pending_pkg_id sample_pending_package) sample_db)))
        = [Some ''Lahore weekend'', Some ''Hunza week'']"
    using t hp by (simp add: sample_db_tables sample_package_def sample_pending_package_def)
  have p2: "map pp_status (pending_packages (snd (approve_package sample_env sample_admin
          (pp_pending_pkg_id sample_pending_package) sample_db))) = [''approved'']"
    using t hp by (simp add: sample_db_tables)
  show ?thesis
    using hd hp d1 d2 p1 p2 sample_env_fields(1) sample_admin_fields by blast
qed

text \<open>
  C2, on the code: a destination that was already approved is rejected again without
  complaint. \<open>reject_destination\<close> has no \<open>status = 'pending'\<close> guard, so the second
  decision answers 200 and overwrites the status, while the live row stays.
\<close>

theorem reject_after_approve_overwrites:
  "fst (reject_destination sample_env sample_admin 1
          (snd (approve_destination sample_env sample_admin 1 sample_db)))
     = jsonify True ''Destination rejected'' 200
   \<and> map pd_status (pending_destinations
         (snd (approve_destination sample_env sample_admin 1 sample_db))) = [''approved'']
   \<and> map pd_status (pending_destinations
         (snd (reject_destination sample_env sample_admin 1
            (snd (approve_destination sample_env sample_admin 1 sample_db))))) = [''rejected'']
   \<and> map d_name (destinations
         (snd (reject_destination sample_env sample_admin 1
            (snd (approve_destination sample_env sample_admin 1 sample_db)))))
       = [''Lahore'', ''Hunza'']"
  by (simp add: reject_destination_def approve_destination_def admin_required_def Let_def
      sample_env_fields sample_admin_fields sample_db_def sample_pending_destination_def)

text \<open>
  The guarded half of C2 does hold: once no row with that id is \<open>pending\<close>, approving
  answers 404 and leaves every table as it was.
\<close>

lemma approve_decided_is_not_found:
  assumes "connected e" "s_user_id sess = Some admin" "s_role sess = Some ''admin''"
    and "list_all (\<lambda>x. pd_pending_id x = i \<longrightarrow> pd_status x \<noteq> ''pending'')
           (pending_destinations db)"
  shows "approve_destination e sess i db = (jsonify False ''Destination not found'' 404, db)"
proof -
  have "find (\<lambda>x. pd_pending_id x = i \<and> pd_status x = ''pending'') (pending_destinations db)
          = None"
    using assms(4) by (simp add: find_None_iff list_all_iff)
  then show ?thesis
    using assms(1-3) by (simp add: approve_destination_def admin_required_def)
qed

section \<open>Properties of live packages\<close>

lemma find_map_key:
  "(\<And>x. k (g x) = k x) \<Longrightarrow> find (\<lambda>x. k x = i) (map g xs) = map_option g (find (\<lambda>x. k x = i) xs)"
  by (induction xs) auto

lemma map_restore_unique:
  assumes "distinct (map k xs)" "r \<in> set xs" "f r = r"
  shows "map (\<lambda>x. if k x = k r then f x else x) xs = xs"
proof -
  have "map (\<lambda>x. if k x = k r then f x else x) xs = map (\<lambda>x. if x = r then f r else x) xs"
    by (rule map_upd_unique[OF assms(1,2)])
  also have "\<dots> = map (\<lambda>x. x) xs"
    by (rule map_cong) (auto simp: assms(3))
  finally show ?thesis by simp
qed

lemma toggle_package_status_eq:
  assumes "connected e" "s_user_id sess = Some u" "s_role sess = Some ''vendor''"
    and f: "find (\<lambda>x. p_package_id x = i) (packages db) = Some p"
    and o: "p_vendor_id p = s_vendor_id sess"
  shows "snd (toggle_package_status e sess i db) =
           db\<lparr>packages := map (\<lambda>x. if p_package_id x = i
                                    then x\<lparr>p_is_active := (if p_is_active p = 1 then 0 else 1)\<rparr> else x)
                              (packages db)\<rparr>"
    and "snd (fst (toggle_package_status e sess i db)) = 200"
  using assms
  by (simp_all add: toggle_package_status_def vendor_required_def Let_def jsonify_def)

lemma toggle_twice_restores:
  assumes c: "connected e" and u: "s_user_id sess = Some u" and v: "s_role sess = Some ''vendor''"
    and d: "distinct (map p_package_id (packages db))"
    and r: "p \<in> set (packages db)"
    and o: "p_vendor_id p = s_vendor_id sess"
    and a: "p_is_active p = 0 \<or> p_is_active p = 1"
  shows "snd (toggle_package_status e sess (p_package_id p)
            (snd (toggle_package_status e sess (p_package_id p) db))) = db"
proof -
  let ?i = "p_package_id p"
  let ?g = "\<lambda>x. if p_package_id x = ?i
                 then x\<lparr>p_is_active := (if p_is_active p = 1 then 0 else 1)\<rparr> else x"
  let ?p' = "p\<lparr>p_is_active := (if p_is_active p = 1 then 0 else 1)\<rparr>"
  let ?db' = "db\<lparr>packages := map ?g (packages db)\<rparr>"
  have f1: "find (\<lambda>x. p_package_id x = ?i) (packages db) = Some p"
    using find_key[of p_package_id "packages db" p] d r by simp
  have s1: "snd (toggle_package_status e sess ?i db) = ?db'"
    by (rule toggle_package_status_eq(1)[OF c u v f1 o])
  have "find (\<lambda>x. p_package_id x = ?i) (map ?g (packages db))
          = map_option ?g (find (\<lambda>x. p_package_id x = ?i) (packages db))"
    by (rule find_map_key) simp
  then have f2: "find (\<lambda>x. p_package_id x = ?i) (packages ?db') = Some ?p'"
    using f1 by simp
  have o2: "p_vendor_id ?p' = s_vendor_id sess"
    using o by simp
  have s2: "snd (toggle_package_status e sess ?i ?db') =
              ?db'\<lparr>packages := map (\<lambda>x. if p_package_id x = ?i
                                    then x\<lparr>p_is_active := (if p_is_active ?p' = 1 then 0 else 1)\<rparr> else x)
                              (packages ?db')\<rparr>"
    by (rule toggle_package_status_eq(1)[OF c u v f2 o2])
  have fl: "(if p_is_active ?p' = 1 then 0 else 1) = p_is_active p"
    using a by auto
  have "map (\<lambda>x. if p_package_id x = ?i
                  then x\<lparr>p_is_active := (if p_is_active ?p' = 1 then 0 else 1)\<rparr> else x)
          (packages ?db')
        = map (\<lambda>x. if p_package_id x = ?i then x\<lparr>p_is_active := p_is_active p\<rparr> else x)
            (packages db)"
    unfolding fl by (simp add: comp_def)
  also have "\<dots> = packages db"
    by (rule map_restore_unique[OF d r]) simp
  finally have "snd (toggle_package_status e sess ?i ?db') = db"
    using s2 by simp
  then show ?thesis
    using s1 by simp
qed

lemma listed_packages_active:
  "row \<in> set (listed_packages db) \<Longrightarrow>
     pl_package row \<in> set (packages db) \<and> p_is_active (pl_package row) = 1"
  by (auto simp: listed_packages_def split: if_splits)

lemma get_packages_listed:
  "row \<in> set (snd (get_packages e dest db)) \<Longrightarrow> row \<in> set (listed_packages db)"
  by (auto simp: get_packages_def split: if_splits option.splits)

lemma toggled_row_inactive:
  assumes y: "y \<in> set (map (\<lambda>x. if p_package_id x = i then x\<lparr>p_is_active := a\<rparr> else x) xs)"
    and same: "p_package_id y = i"
  shows "p_is_active y = a"
proof -
  from y have "\<exists>x\<in>set xs. y = (if p_package_id x = i then x\<lparr>p_is_active := a\<rparr> else x)"
    by (simp only: set_map image_iff)
  then obtain x where x: "y = (if p_package_id x = i then x\<lparr>p_is_active := a\<rparr> else x)" ..
  show ?thesis
  proof (cases "p_package_id x = i")
    case True
    then have "y = x\<lparr>p_is_active := a\<rparr>" using x by (simp only: simp_thms if_True)
    then have "p_is_active y = p_is_active (x\<lparr>p_is_active := a\<rparr>)" by (rule arg_cong)
    then show ?thesis by simp
  next
    case False
    then have "y = x" using x by (simp only: simp_thms if_False)
    then show ?thesis using False same by blast
  qed
qed
lemma toggled_not_listed:
  assumes c: "connected e" and u: "s_user_id sess = Some u" and v: "s_role sess = Some ''vendor''"
    and d: "distinct (map p_package_id (packages db))"
    and r: "p \<in> set (packages db)"
    and o: "p_vendor_id p = s_vendor_id sess"
    and a: "p_is_active p = 1"
    and l: "row \<in> set (snd (get_packages e' dest
                (snd (toggle_package_status e sess (p_package_id p) db))))"
  shows "p_package_id (pl_package row) \<noteq> p_package_id p"
proof
  assume same: "p_package_id (pl_package row) = p_package_id p"
  let ?g = "\<lambda>x. if p_package_id x = p_package_id p then x\<lparr>p_is_active := 0\<rparr> else x"
  have f1: "find (\<lambda>x. p_package_id x = p_package_id p) (packages db) = Some p"
    using find_key[of p_package_id "packages db" p] d r by simp
  have "snd (toggle_package_status e sess (p_package_id p) db)
          = db\<lparr>packages := map (\<lambda>x. if p_package_id x = p_package_id p
                 then x\<lparr>p_is_active := (if p_is_active p = 1 then 0 else 1)\<rparr> else x)
                 (packages db)\<rparr>"
    by (rule toggle_package_status_eq(1)[OF c u v f1 o])
  then have s1: "snd (toggle_package_status e sess (p_package_id p) db)
              = db\<lparr>packages := map ?g (packages db)\<rparr>"
    by (simp only: a if_True simp_thms)
  have "row \<in> set (listed_packages (db\<lparr>packages := map ?g (packages db)\<rparr>))"
    using l get_packages_listed unfolding s1 by blast
  then have "pl_package row \<in> set (packages (db\<lparr>packages := map ?g (packages db)\<rparr>))"
    and act: "p_is_active (pl_package row) = 1"
    using listed_packages_active by blast+
  then have "pl_package row \<in> set (map ?g (packages db))"
    by simp
  then have "p_is_active (pl_package row) = 0"
    using same by (rule toggled_row_inactive)
  then show False
    using act by simp
qed
text \<open>
  C7: for a live package owned by the calling vendor (unique package ids, flag 0 or 1),
  toggling twice gives back the database it started from; every row of the public listing
  is a package of the table whose flag is 1, so a disabled package is never listed; and an
  active package that is toggled off is absent from the next listing.
\<close>

theorem toggle_twice_and_listing:
  assumes "connected e" "s_user_id sess = Some u" "s_role sess = Some ''vendor''"
    and "distinct (map p_package_id (packages db))"
    and "p \<in> set (packages db)"
    and "p_vendor_id p = s_vendor_id sess"
    and "p_is_active p = 0 \<or> p_is_active p = 1"
  shows "snd (toggle_package_status e sess (p_package_id p)
            (snd (toggle_package_status e sess (p_package_id p) db))) = db
       \<and> (\<forall>row \<in> set (snd (get_packages e' dest db')).
             pl_package row \<in> set (packages db') \<and> p_is_active (pl_package row) = 1)
       \<and> (p_is_active p = 1 \<longrightarrow>
            (\<forall>row \<in> set (snd (get_packages e' dest
                  (snd (toggle_package_status e sess (p_package_id p) db)))).
               p_package_id (pl_package row) \<noteq> p_package_id p))"
proof (intro conjI)
  show "snd (toggle_package_status e sess (p_package_id p)
            (snd (toggle_package_status e sess (p_package_id p) db))) = db"
    by (rule toggle_twice_restores[OF assms])
  show "\<forall>row \<in> set (snd (get_packages e' dest db')).
          pl_package row \<in> set (packages db') \<and> p_is_active (pl_package row) = 1"
    using get_packages_listed listed_packages_active by blast
  show "p_is_active p = 1 \<longrightarrow>
          (\<forall>row \<in> set (snd (get_packages e' dest
                (snd (toggle_package_status e sess (p_package_id p) db)))).
             p_package_id (pl_package row) \<noteq> p_package_id p)"
    using toggled_not_listed[OF assms(1-6)] by blast
qed

lemma sample_vendor_fields:
  "s_user_id sample_vendor = Some 7" "s_role sample_vendor = Some ''vendor''"
  "s_vendor_id sample_vendor = Some 3"
  by (simp_all add: sample_vendor_def)

theorem toggle_twice_and_listing_witness:
  "connected sample_env \<and> s_user_id sample_vendor = Some 7
   \<and> s_role sample_vendor = Some ''vendor''
   \<and> distinct (map p_package_id (packages sample_db))
   \<and> sample_package \<in> set (packages sample_db)
   \<and> p_vendor_id sample_package = s_vendor_id sample_vendor
   \<and> p_is_active sample_package = 1
   \<and> snd (toggle_package_status sample_env sample_vendor (p_package_id sample_package)
        (snd (toggle_package_status sample_env sample_vendor (p_package_id sample_package)
           sample_db))) = sample_db
   \<and> map pl_package (snd (get_packages sample_env None sample_db)) = [sample_package]
   \<and> snd (get_packages sample_env None
        (snd (toggle_package_status sample_env sample_vendor (p_package_id sample_package)
           sample_db))) = []"
proof -
  have h: "distinct (map p_package_id (packages sample_db))"
    "sample_package \<in> set (packages sample_db)"
    "p_vendor_id sample_package = s_vendor_id sample_vendor"
    "p_is_active sample_package = 1"
    by (simp_all add: sample_db_tables sample_vendor_fields sample_package_def)
  have a: "p_is_active sample_package = 0 \<or> p_is_active sample_package = 1"
    using h(4) by simp
  note t = toggle_twice_and_listing
    [OF sample_env_fields(1) sample_vendor_fields(1) sample_vendor_fields(2) h(1) h(2) h(3) a,
     of sample_env None sample_db]
  have l1: "map pl_package (snd (get_packages sample_env None sample_db)) = [sample_package]"
    by (simp add: get_packages_def listed_packages_def sample_env_fields sample_db_def
        sample_package_def)
  have l2: "snd (get_packages sample_env None
        (snd (toggle_package_status sample_env sample_vendor (p_package_id sample_package)
           sample_db))) = []"
    by (simp add: get_packages_def listed_packages_def toggle_package_status_def
        vendor_required_def Let_def sample_env_fields sample_vendor_fields sample_db_def
        sample_package_def)
  show ?thesis
    using t h l1 l2 sample_env_fields(1) sample_vendor_fields(1,2) by blast
qed

section \<open>Properties of login\<close>



lemma sample_login_rows:
  "login_rows sample_db ''skyways'' =
     [(\<lparr>u_user_id = 7, u_username = ''skyways'', u_email = ''ops@skyways.example'',
         u_password_hash = Some ''h-sky'', u_full_name = ''Sky Ways'', u_role_id = 2,
         u_is_active = 1, u_last_login = Some 800\<rparr>,
       \<lparr>ur_role_id = 2, ur_role_name = ''vendor'', ur_user_id = Some 7\<rparr>,
       Some \<lparr>vp_vendor_id = 3, vp_user_id = 7, vp_company_name = ''Sky Ways'',
              vp_verification_status = ''verified'', vp_rating = Some 4\<rparr>)]"
  by (simp add: login_rows_def left_join_def sample_db_def)

text \<open>
  The username is stripped of Unicode white space as well: the user \<open>skyways\<close>, typed with a
  trailing no-break space and the right password, is logged in and \<open>last_login\<close> is
  stamped.
\<close>

lemma login_strips_unicode_space:
  "fst (login sample_env sample_hashing
          \<lparr>lr_username = Some (''skyways'' @ [CHR 0xC2, CHR 0xA0]), lr_password = Some ''sky''\<rparr>
          anonymous sample_db) = jsonify True ''Login successful'' 200
   \<and> map u_last_login
         (users (snd (snd (login sample_env sample_hashing
            \<lparr>lr_username = Some (''skyways'' @ [CHR 0xC2, CHR 0xA0]), lr_password = Some ''sky''\<rparr>
            anonymous sample_db)))) = [None, Some 1000]"
proof -
  have s: "strip (''skyways'' @ [CHR 0xC2, CHR 0xA0]) = ''skyways''"
    by (rule sample_strips)
  have v: "verify_password sample_hashing (Some ''h-sky'') ''sky'' = (True, False)"
    by (simp add: verify_password_def sample_hashing_def)
  have l: "login sample_env sample_hashing
          \<lparr>lr_username = Some (''skyways'' @ [CHR 0xC2, CHR 0xA0]), lr_password = Some ''sky''\<rparr>
          anonymous sample_db =
        (jsonify True ''Login successful'' 200,
         anonymous\<lparr>s_user_id := Some 7, s_username := Some ''skyways'',
                   s_email := Some ''ops@skyways.example'', s_full_name := Some ''Sky Ways'',
                   s_role := Some ''vendor'', s_vendor_id := Some 3\<rparr>,
         sample_db\<lparr>users :=
            map (\<lambda>x. if u_user_id x = 7 then x\<lparr>u_last_login := Some 1000\<rparr> else x)
              (users sample_db)\<rparr>)"
    using s by (simp add: login_def Let_def get_or_def sample_login_rows v sample_env_fields)
  show ?thesis
    unfolding l by (simp add: sample_db_def)
qed




section \<open>Properties of vendor rejection\<close>

text \<open>
  What \<open>reject_vendor\<close> does for a vendor found by its unique id, whatever the vendor's
  verification status: the three deletions, and nothing else.
\<close>

lemma reject_vendor_deletes:
  assumes "connected e" "s_user_id sess = Some admin" "s_role sess = Some ''admin''"
    and d: "distinct (map vp_vendor_id (vendor_profiles db))"
    and v: "v \<in> set (vendor_profiles db)"
  shows "reject_vendor e sess (vp_vendor_id v) db =
           (jsonify True ''Vendor rejected and removed'' 200,
            db\<lparr>vendor_profiles :=
                  filter (\<lambda>x. vp_vendor_id x \<noteq> vp_vendor_id v) (vendor_profiles db),
                user_roles :=
                  filter (\<lambda>x. ur_user_id x \<noteq> Some (vp_user_id v)) (user_roles db),
                users := filter (\<lambda>x. u_user_id x \<noteq> vp_user_id v) (users db)\<rparr>)"
proof -
  have f: "find (\<lambda>x. vp_vendor_id x = vp_vendor_id v) (vendor_profiles db) = Some v"
    using find_key[of vp_vendor_id "vendor_profiles db" v] d v by simp
  show ?thesis
    using assms(1-3) by (simp add: reject_vendor_def admin_required_def Let_def f)
qed

text \<open>
  The sibling \<open>approve_vendor\<close> selects the vendor with \<open>verification_status = 'pending'\<close>:
  a vendor that is no longer pending is not found, and nothing changes.
\<close>

lemma approve_processed_vendor_is_not_found:
  assumes "connected e" "s_user_id sess = Some admin" "s_role sess = Some ''admin''"
    and p: "\<forall>v \<in> set (vendor_profiles db).
              vp_vendor_id v = vendor_id \<longrightarrow> vp_verification_status v \<noteq> ''pending''"
  shows "approve_vendor e sess vendor_id db =
           (jsonify False ''Vendor not found or already processed'' 404, db)"
proof -
  have f: "find (\<lambda>v. vp_vendor_id v = vendor_id \<and> vp_verification_status v = ''pending'')
             (vendor_profiles db) = None"
    using p by (auto simp: find_None_iff)
  show ?thesis
    using assms(1-3) by (simp add: approve_vendor_def admin_required_def f)
qed

text \<open>
  C5, on the code: the claim is about rejecting a pending vendor, who has no session and
  so no bookings. \<open>reject_vendor\<close> selects the vendor by id alone, without the
  \<open>verification_status = 'pending'\<close> condition of \<open>approve_vendor\<close>. Vendor 3 of the sample
  database is verified, belongs to user 7 and has made a booking: \<open>approve_vendor\<close> answers
  404 and changes nothing, while \<open>reject_vendor\<close> answers 200 and deletes the user row,
  leaving the booking that references user 7 behind.
\<close>

theorem reject_vendor_leaves_booking:
  "map (\<lambda>v. (vp_vendor_id v, vp_user_id v, vp_verification_status v)) (vendor_profiles sample_db)
     = [(3, 7, ''verified'')]
   \<and> map b_user_id (bookings sample_db) = [7]
   \<and> approve_vendor sample_env sample_admin 3 sample_db
       = (jsonify False ''Vendor not found or already processed'' 404, sample_db)
   \<and> fst (reject_vendor sample_env sample_admin 3 sample_db)
       = jsonify True ''Vendor rejected and removed'' 200
   \<and> vendor_profiles (snd (reject_vendor sample_env sample_admin 3 sample_db)) = []
   \<and> map u_user_id (users (snd (reject_vendor sample_env sample_admin 3 sample_db))) = [1]
   \<and> map b_user_id (bookings (snd (reject_vendor sample_env sample_admin 3 sample_db))) = [7]"
proof -
  have a: "map (\<lambda>v. (vp_vendor_id v, vp_user_id v, vp_verification_status v))
             (vendor_profiles sample_db) = [(3, 7, ''verified'')]"
    "map b_user_id (bookings sample_db) = [7]"
    by (simp_all add: sample_db_def sample_booking_def)
  have p: "\<forall>v \<in> set (vendor_profiles sample_db).
              vp_vendor_id v = 3 \<longrightarrow> vp_verification_status v \<noteq> ''pending''"
    by (simp add: sample_db_def)
  have b: "approve_vendor sample_env sample_admin 3 sample_db
       = (jsonify False ''Vendor not found or already processed'' 404, sample_db)"
    by (rule approve_processed_vendor_is_not_found
          [OF sample_env_fields(1) sample_admin_fields(1) sample_admin_fields(2) p])
  have c: "fst (reject_vendor sample_env sample_admin 3 sample_db)
       = jsonify True ''Vendor rejected and removed'' 200
   \<and> vendor_profiles (snd (reject_vendor sample_env sample_admin 3 sample_db)) = []
   \<and> map u_user_id (users (snd (reject_vendor sample_env sample_admin 3 sample_db))) = [1]
   \<and> map b_user_id (bookings (snd (reject_vendor sample_env sample_admin 3 sample_db))) = [7]"
    by (simp add: reject_vendor_def admin_required_def Let_def sample_env_fields
        sample_admin_fields sample_db_def sample_booking_def)
  show ?thesis
    using a b c by simp
qed

section \<open>Properties of bookings\<close>

lemma first_missing_total:
  "first_missing data = None \<Longrightarrow> \<exists>t. br_total_price data = Some t \<and> t \<noteq> 0"
  by (cases "br_total_price data")
     (simp_all add: first_missing_def missing_num_def split: if_splits)

lemma create_booking_created:
  assumes created: "snd (fst (fst (create_booking lower e sess data db))) = 201"
  shows "first_missing data = None
       \<and> 0 < get_or (br_total_price data) 0
       \<and> map b_total_price (bookings (snd (create_booking lower e sess data db)))
           = map b_total_price (bookings db) @ [get_or (br_total_price data) 0]
       \<and> map_option bc_total_price (snd (fst (create_booking lower e sess data db)))
           = Some (get_or (br_total_price data) 0)"
  using created
  by (simp add: create_booking_def Let_def jsonify_def
      split: option.splits if_splits sum.splits prod.splits)

lemma sample_booking_created:
  "create_booking ascii_lower sample_env sample_vendor
     (sample_booking_request\<lparr>br_total_price := Some t\<rparr>) sample_db
   = ((jsonify True ''Booking submitted! Proceeding to payment...'' 201,
       Some \<lparr>bc_booking_id = 2, bc_total_price = t, bc_package_name = Some ''Lahore weekend''\<rparr>),
      sample_db\<lparr>bookings :=
          [sample_booking,
           \<lparr>b_booking_id = 2, b_user_id = 7, b_package_id = 1, b_from_location = ''Karachi'',
            b_to_location = ''Lahore'', b_departure_date = 20260101,
            b_departure_time = ''09:00'', b_return_date = None, b_return_time = None,
            b_preferred_airline = ''PIA'', b_preferred_seating = ''economy'',
            b_num_adults = 3, b_num_children = 0, b_num_infants = 0, b_num_travelers = 3,
            b_fare_type = ''one_way'', b_message = [], b_total_price = t,
            b_customer_full_name = ''Sky Ways'', b_customer_phone = ''0300'',
            b_customer_email = ''ops@skyways.example'', b_status = ''pending'',
            b_booking_date = 1000\<rparr>],
        booking_seq := 3\<rparr>)" if "0 < t"
  using that
  by (simp add: create_booking_def Let_def first_missing_def missing_str_def missing_int_def
      missing_num_def nonempty_def booking_dates_def get_or_def sample_strips strip_Nil
      sample_lowers sample_env_def sample_vendor_def sample_booking_request_def
      sample_db_def sample_package_def)

text \<open>
  C3 as stated fails. Three adults book the sample package, every tier price of which is
  100, so the total the specification asks for is 300; the client sends \<open>total_price = 1\<close>
  and 1 is what the booking row stores. Sending 2 instead stores 2: the stored total is
  the client's number.
\<close>

theorem create_booking_trusts_client_price:
  "snd (fst (fst (create_booking ascii_lower sample_env sample_vendor sample_booking_request
            sample_db)))
     = 201
   \<and> map b_total_price (bookings (snd
         (create_booking ascii_lower sample_env sample_vendor sample_booking_request
            sample_db))) = [100, 1]
   \<and> spec_tier_total sample_package ''economy'' 3 0 0 = 300
   \<and> map b_total_price (bookings (snd
         (create_booking ascii_lower sample_env sample_vendor
            (sample_booking_request\<lparr>br_total_price := Some 2\<rparr>) sample_db))) = [100, 2]"
proof -
  have same: "sample_booking_request\<lparr>br_total_price := Some 1\<rparr> = sample_booking_request"
    by (simp add: sample_booking_request_def)
  have one: "create_booking ascii_lower sample_env sample_vendor sample_booking_request sample_db
    = create_booking ascii_lower sample_env sample_vendor
        (sample_booking_request\<lparr>br_total_price := Some 1\<rparr>) sample_db"
    by (simp only: same)
  have tier: "spec_tier_total sample_package ''economy'' 3 0 0 = 300"
    by (simp add: spec_tier_total_def times_price_def get_or_def sample_package_def)
  show ?thesis
    unfolding one
    by (simp add: sample_booking_created jsonify_def sample_booking_def tier)
qed

text \<open>
  C3 amended: whenever \<open>create_booking\<close> answers 201, the request carried a positive
  \<open>total_price\<close>, exactly one booking row was appended, and the total stored in that row
  (and echoed in the response) is that client-supplied number; no tier price of the package
  enters it.
\<close>

theorem create_booking_stores_client_total:
  assumes "snd (fst (fst (create_booking lower e sess data db))) = 201"
  shows "\<exists>t. br_total_price data = Some t \<and> 0 < t
           \<and> map b_total_price (bookings (snd (create_booking lower e sess data db)))
               = map b_total_price (bookings db) @ [t]
           \<and> map_option bc_total_price (snd (fst (create_booking lower e sess data db))) = Some t"
proof -
  note c = create_booking_created[OF assms]
  from c obtain t where t: "br_total_price data = Some t"
    using first_missing_total by blast
  then have "get_or (br_total_price data) 0 = t"
    by (simp add: get_or_def)
  then show ?thesis
    using c t by simp
qed

theorem create_booking_stores_client_total_witness:
  "snd (fst (fst (create_booking ascii_lower sample_env sample_vendor sample_booking_request
            sample_db)))
     = 201
   \<and> (\<exists>t. br_total_price sample_booking_request = Some t \<and> 0 < t
           \<and> map b_total_price (bookings (snd
                 (create_booking ascii_lower sample_env sample_vendor sample_booking_request
                    sample_db)))
               = map b_total_price (bookings sample_db) @ [t])"
proof -
  have same: "sample_booking_request\<lparr>br_total_price := Some 1\<rparr> = sample_booking_request"
    by (simp add: sample_booking_request_def)
  have created: "snd (fst (fst
      (create_booking ascii_lower sample_env sample_vendor sample_booking_request
         sample_db))) = 201"
    using sample_booking_created[of 1] by (simp add: same jsonify_def)
  show ?thesis
    using create_booking_stores_client_total[OF created] created by blast
qed

section \<open>Properties of reviews\<close>

text \<open>
  C6, on the code: the rating 5.5 lies outside 1..5, yet \<open>int(rating)\<close> truncates it to 5,
  the membership test passes, and the review is stored with rating 5 and answered with
  success (HTTP 200), whatever the string parser is.
\<close>

theorem submit_review_fractional_accepted:
  "submit_review sample_env parse anonymous 1
     \<lparr>rs_rating = Some (JFloat (11 / 2)), rs_user_name = None\<rparr> sample_db
   = (jsonify True ''Review submitted successfully!'' 200,
      sample_db\<lparr>reviews :=
          [\<lparr>rv_review_id = 1, rv_package_id = 1, rv_user_id = None,
            rv_user_name = ''Anonymous'', rv_rating = 5\<rparr>],
        review_id_seq := 2\<rparr>)"
proof -
  have tr: "trunc (11 / 2) = 5"
    by (simp add: trunc_def floor_eq_iff)
  show ?thesis
    by (simp add: submit_review_def Let_def get_or_def tr strip_Nil sample_env_fields
        anonymous_def sample_db_def sample_package_def)
qed

text \<open>
  What the validation does catch: a missing rating and an integer outside 1..5 are
  answered with 400 and nothing is written; a string the parser rejects is answered with
  500 (not 400), again with nothing written.
\<close>

lemma submit_review_integer_rejected:
  assumes "rs_rating data = None \<or> (\<exists>i. rs_rating data = Some (JInt i) \<and> (i < 1 \<or> 5 < i))"
  shows "submit_review e parse sess package_id data db
           = (jsonify False ''Please provide a valid rating (1-5)'' 400, db)"
  using assms by (auto simp: submit_review_def Let_def get_or_def)

lemma submit_review_unparsed_string:
  assumes "rs_rating data = Some (JStr s)" "s \<noteq> []" "parse s = None"
  shows "submit_review e parse sess package_id data db
           = (jsonify False ''Failed to submit review: '' 500, db)"
  using assms by (simp add: submit_review_def Let_def get_or_def)

section \<open>Properties of the fallback paths\<close>









end
